theory Spec2Isabelle
  imports Complex_Main "HOL-Library.AList" "HOL-Library.Multiset"
begin

section \<open>JavaScript values, objects and arrays\<close>

text \<open>
  The settings grid of the rule sheets holds strings, and a read outside an array or of a
  missing property gives \<open>undefined\<close>. A cell is therefore a \<open>string option\<close>, with
  \<open>None\<close> for \<open>undefined\<close>.

  An object used as a dictionary is the list of its own properties in insertion order.
  Assigning to a property that exists keeps its place, assigning to a new one appends it
  (\<open>AList.update\<close>), and enumeration (\<open>Object.keys\<close>, \<open>Object.values\<close>,
  \<open>Object.entries\<close>) visits the array-index keys first, in ascending numeric order, then
  the other keys in insertion order.

  An object also inherits the members of \<open>Object.prototype\<close>. Reading \<open>obj[key]\<close> for
  one of their names on an object without an own property of that name gives the
  inherited member (a function, or the prototype itself for \<open>__proto__\<close>), which is
  neither \<open>undefined\<close> nor a string, and \<open>key in obj\<close> holds there. An assignment
  \<open>obj[key] = value\<close> makes an own property, except for the key \<open>__proto__\<close>, where
  it makes none. A cell cannot hold an inherited member: a definition below says where
  it reads an object by a key that may name one, and the statements about the values
  read are made for the other keys.
\<close>

type_synonym cell = "string option"

type_synonym 'v jsobj = "(string \<times> 'v) list"

datatype js_error = TypeError | Thrown string

definition is_digit :: "char \<Rightarrow> bool" where
  "is_digit c = (c \<in> set ''0123456789'')"

definition digit_val :: "char \<Rightarrow> nat" where
  "digit_val c = of_char c - 48"

definition dec_val :: "string \<Rightarrow> nat" where
  "dec_val s = foldl (\<lambda>n c. 10 * n + digit_val c) 0 s"

text \<open>A key is an array index when it is the canonical decimal form of a number below \<open>2^32 - 1\<close>.\<close>

definition array_index :: "string \<Rightarrow> nat option" where
  "array_index k =
     (if k \<noteq> [] \<and> list_all is_digit k \<and> (k = ''0'' \<or> hd k \<noteq> CHR ''0'') \<and> dec_val k < 2 ^ 32 - 1
      then Some (dec_val k) else None)"

definition index_rank :: "string \<times> 'v \<Rightarrow> nat" where
  "index_rank kv = (case array_index (fst kv) of Some n \<Rightarrow> n | None \<Rightarrow> 0)"

definition obj_entries :: "'v jsobj \<Rightarrow> (string \<times> 'v) list" where
  "obj_entries obj =
     sort_key index_rank (filter (\<lambda>kv. array_index (fst kv) \<noteq> None) obj)
     @ filter (\<lambda>kv. array_index (fst kv) = None) obj"

definition obj_keys :: "'v jsobj \<Rightarrow> string list" where
  "obj_keys obj = map fst (obj_entries obj)"

definition obj_values :: "'v jsobj \<Rightarrow> 'v list" where
  "obj_values obj = map snd (obj_entries obj)"

definition prototype_member :: "string \<Rightarrow> bool" where
  "prototype_member key =
     (key \<in> set [''constructor'', ''hasOwnProperty'', ''isPrototypeOf'', ''propertyIsEnumerable'',
                  ''toLocaleString'', ''toString'', ''valueOf'', ''__proto__'', ''__defineGetter__'',
                  ''__defineSetter__'', ''__lookupGetter__'', ''__lookupSetter__''])"

text \<open>\<open>obj[key] = value\<close> for a number, a string or \<open>undefined\<close> as the value.\<close>

definition assign :: "string \<Rightarrow> 'v \<Rightarrow> 'v jsobj \<Rightarrow> 'v jsobj" where
  "assign key v obj = (if key = ''__proto__'' then obj else AList.update key v obj)"

text \<open>
  \<open>Object.fromEntries\<close>: the pairs are defined as own properties one after the other,
  whatever their keys.
\<close>

definition fromEntries :: "(string \<times> 'v) list \<Rightarrow> 'v jsobj" where
  "fromEntries es = foldl (\<lambda>obj kv. AList.update (fst kv) (snd kv) obj) [] es"

text \<open>Reading \<open>obj[key]\<close> where the values are cells: a missing property reads as \<open>undefined\<close>.\<close>

definition read_prop :: "cell jsobj \<Rightarrow> string \<Rightarrow> cell" where
  "read_prop obj key = (case map_of obj key of None \<Rightarrow> None | Some v \<Rightarrow> v)"

text \<open>\<open>row[i]\<close> on an array of cells; \<open>None\<close> for the index \<open>-1\<close> that \<open>indexOf\<close> gives.\<close>

definition cell_at :: "cell list \<Rightarrow> nat \<Rightarrow> cell" where
  "cell_at row i = (if i < length row then row ! i else None)"

fun indexOf :: "cell list \<Rightarrow> string \<Rightarrow> nat option" where
  "indexOf [] x = None"
| "indexOf (c # cs) x = (if c = Some x then Some 0 else map_option Suc (indexOf cs x))"

text \<open>A value used as a property key is converted to a string.\<close>

definition key_of :: "cell \<Rightarrow> string" where
  "key_of c = (case c of None \<Rightarrow> ''undefined'' | Some s \<Rightarrow> s)"

text \<open>\<open>c ?? d\<close> and the truth value of a cell.\<close>

definition nullish :: "cell \<Rightarrow> cell \<Rightarrow> cell" where
  "nullish c d = (case c of None \<Rightarrow> d | Some s \<Rightarrow> Some s)"

definition truthy :: "cell \<Rightarrow> bool" where
  "truthy c = (c \<noteq> None \<and> c \<noteq> Some '''')"

section \<open>SettingMap\<close>

text \<open>
  \<open>map\<close> is a JavaScript \<open>Map\<close>: it keeps insertion order and compares keys by identity,
  so the key \<open>undefined\<close> (an identity cell read from an empty row) differs from every
  string. The record of an id is an object from parameter key to cell.
\<close>

type_synonym settings_record = "cell jsobj"

record SettingMap =
  smap :: "(cell \<times> settings_record) list"
  keys :: "string list"

definition new_Map :: "(cell \<times> settings_record) list \<Rightarrow> (cell \<times> settings_record) list" where
  "new_Map values = foldl (\<lambda>m kv. AList.update (fst kv) (snd kv) m) [] values"

text \<open>The constructor reads \<open>values[0][1]\<close>: on the empty array this is a \<open>TypeError\<close>.\<close>

definition new_SettingMap :: "(cell \<times> settings_record) list \<Rightarrow> js_error + SettingMap" where
  "new_SettingMap values =
     (case values of
        [] \<Rightarrow> Inl TypeError
      | v # _ \<Rightarrow> Inr \<lparr>smap = new_Map values, keys = obj_keys (snd v)\<rparr>)"

definition get :: "SettingMap \<Rightarrow> string \<Rightarrow> settings_record \<times> SettingMap" where
  "get m ident =
     (case map_of (smap m) (Some ident) of
        Some obj \<Rightarrow> (obj, m)
      | None \<Rightarrow>
          (let newObj = fromEntries (map (\<lambda>k. (k, Some '''')) (keys m))
           in (newObj, m\<lparr>smap := AList.update (Some ident) newObj (smap m)\<rparr>)))"

definition stored :: "SettingMap \<Rightarrow> string \<Rightarrow> settings_record" where
  "stored m ident = (case map_of (smap m) (Some ident) of Some obj \<Rightarrow> obj | None \<Rightarrow> [])"

text \<open>
  \<open>getOrDefault\<close> reads the two records by the keys fixed at construction and assigns
  the result key by key. For a key that names a member of \<open>Object.prototype\<close> and is
  missing in a record, \<open>key in campaignValue\<close> holds and the read gives the inherited
  member; the values below are those for the other keys.
\<close>

definition getOrDefault :: "SettingMap \<Rightarrow> string \<Rightarrow> settings_record \<times> SettingMap" where
  "getOrDefault m ident =
     (let defaultValue = stored m ''default'';
          campaignValue = stored m ident
      in (foldl (\<lambda>prev key.
                   assign key
                     (nullish (if map_of campaignValue key = None \<or> read_prop campaignValue key = Some ''''
                               then read_prop defaultValue key
                               else read_prop campaignValue key)
                              (Some ''''))
                     prev)
            [] (keys m),
          m))"

definition entries :: "SettingMap \<Rightarrow> (cell \<times> cell list) list" where
  "entries m = map (\<lambda>(ident, row). (ident, obj_values row)) (smap m)"

definition set_setting :: "SettingMap \<Rightarrow> string \<Rightarrow> settings_record \<Rightarrow> SettingMap" where
  "set_setting m ident setting = m\<lparr>smap := AList.update (Some ident) setting (smap m)\<rparr>"

section \<open>transformToParamValues\<close>

record ParamDefinition =
  label :: string

definition forEachRow :: "cell list \<Rightarrow> ParamDefinition jsobj \<Rightarrow> cell list \<Rightarrow> cell \<times> settings_record" where
  "forEachRow headers mapper row =
     (cell_at row 0,
      fromEntries
        (map (\<lambda>(param, d).
                (param, (case indexOf headers (label d) of None \<Rightarrow> None | Some i \<Rightarrow> cell_at row i)))
           (obj_entries mapper)))"

definition transformToParamValues ::
    "cell list list \<Rightarrow> ParamDefinition jsobj \<Rightarrow> js_error + SettingMap" where
  "transformToParamValues rawSettings mapper =
     (if length rawSettings < 2
      then Inl (Thrown ''Expected a grid with row and column headers of at least size 2'')
      else let headers = hd rawSettings;
               body = tl rawSettings
           in new_SettingMap (map (forEachRow headers mapper) body))"

text \<open>The spec's reading of \<open>entries\<close>, for comparison: one value per key fixed at construction.\<close>

definition entries_by_keys :: "SettingMap \<Rightarrow> (cell \<times> cell list) list" where
  "entries_by_keys m = map (\<lambda>(ident, row). (ident, map (read_prop row) (keys m))) (smap m)"

section \<open>AbstractRuleRange\<close>

text \<open>
  A rule block (\<open>string[][]\<close>) is written by index and so has holes: it is a list of
  optional rows, \<open>None\<close> for a hole. Writing past the end extends the array with holes.
\<close>

type_synonym row = "cell list"

type_synonym block = "row option list"

definition arr_get :: "'a option list \<Rightarrow> nat \<Rightarrow> 'a option" where
  "arr_get a i = (if i < length a then a ! i else None)"

definition arr_set :: "'a option list \<Rightarrow> nat \<Rightarrow> 'a \<Rightarrow> 'a option list" where
  "arr_set a i v =
     (if i < length a then a[i := Some v] else a @ replicate (i - length a) None @ [Some v])"

text \<open>What the class reads of the client: the rule store, with each rule's granularity and helper text.\<close>

record RuleExecutor =
  rule_granularity :: string
  helper :: string

record Client =
  ruleStore :: "RuleExecutor jsobj"

record RuleRange =
  rowIndex :: "nat jsobj"
  columnOrders :: "(nat jsobj) jsobj"
  rules :: "block jsobj"
  len :: nat
  client :: Client




text \<open>
  \<open>setRow\<close>: the field \<open>length\<close> of the class is \<open>len\<close> here; a new id gets
  \<open>++this.length\<close>. The test \<open>this.rowIndex[id] === undefined\<close> reads a plain object:
  it fails for an own property and also for the name of a member of \<open>Object.prototype\<close>,
  so such an id gets no position. The row of an id without a position is stored under
  a key of the array that is not an index, which no read of the class sees: the block is
  made if it is missing and keeps its rows.

  The block is read as \<open>this.rules[category]\<close>. For a category that names a member of
  \<open>Object.prototype\<close> and has no block yet, the code takes the inherited member for
  the block and writes the row into it, that is into an object shared by all objects.
  The model has no such shared state: the statements below are made for categories
  that name no member of \<open>Object.prototype\<close>.
\<close>

definition setRow :: "RuleRange \<Rightarrow> string \<Rightarrow> string \<Rightarrow> row \<Rightarrow> RuleRange" where
  "setRow s category ident column =
     (if ident = '''' then s
      else let s1 = (if map_of (rowIndex s) ident = None \<and> \<not> prototype_member ident
                     then s\<lparr>rowIndex := AList.update ident (len s + 1) (rowIndex s), len := len s + 1\<rparr>
                     else s);
               arr = (case map_of (rules s1) category of Some a \<Rightarrow> a | None \<Rightarrow> [])
           in s1\<lparr>rules := AList.update category
                              (case map_of (rowIndex s1) ident of
                                 Some index \<Rightarrow> arr_set arr index column
                               | None \<Rightarrow> arr)
                              (rules s1)\<rparr>)"

definition setRule :: "RuleRange \<Rightarrow> string \<Rightarrow> cell list list \<Rightarrow> RuleRange" where
  "setRule s ruleName ruleValues =
     foldl (\<lambda>s r. setRow s ruleName (key_of (cell_at r 0)) (drop 1 r)) s ruleValues"














text \<open>
  \<open>getValues\<close>. One step of the \<open>reduce\<close> over \<open>Object.entries(this.rules)\<close> takes the
  combined range and the new row index. The data rows are appended at offsets
  \<open>2, 3, ...\<close> in order, so \<open>add_cells\<close> never writes beyond the first missing row.
\<close>

definition add_cells :: "cell list list \<Rightarrow> nat \<Rightarrow> cell list \<Rightarrow> cell list list" where
  "add_cells combined offsetRow cells =
     (if offsetRow < length combined then combined[offsetRow := combined ! offsetRow @ cells]
      else combined @ [cells])"

definition skipped :: "Client \<Rightarrow> string option \<Rightarrow> string \<Rightarrow> js_error + bool" where
  "skipped cl ruleGranularity category =
     (case ruleGranularity of
        None \<Rightarrow> Inr False
      | Some g \<Rightarrow>
          if g = '''' \<or> category = ''none'' then Inr False
          else (case map_of (ruleStore cl) category of
                  None \<Rightarrow> Inl TypeError
                | Some r \<Rightarrow> Inr (rule_granularity r \<noteq> g)))"

definition helper_cell :: "Client \<Rightarrow> cell list \<Rightarrow> nat \<Rightarrow> nat \<Rightarrow> cell" where
  "helper_cell cl header ruleSettingColumnOffset idx =
     (case map_of (ruleStore cl) (key_of (cell_at header (idx + ruleSettingColumnOffset))) of
        Some r \<Rightarrow> if idx = 0 then Some (helper r) else Some ''''
      | None \<Rightarrow> Some '''')"

text \<open>The body of the \<open>forEach\<close> over the sorted entries of the row index.\<close>

definition add_entry ::
    "block \<Rightarrow> nat \<Rightarrow> cell list list \<times> nat jsobj \<Rightarrow> (string \<times> nat) \<times> nat
       \<Rightarrow> cell list list \<times> nat jsobj" where
  "add_entry rangeRaw ruleSettingColumnCount acc e =
     (let entityId = fst (fst e);
          currentOrdinalValue = snd (fst e);
          postSortedOrdinalValue = snd e;
          offsetRow = postSortedOrdinalValue + 2
      in (add_cells (fst acc) offsetRow
            (case arr_get rangeRaw currentOrdinalValue of
               Some r \<Rightarrow> r
             | None \<Rightarrow> replicate ruleSettingColumnCount (Some '''')),
          AList.update entityId offsetRow (snd acc)))"

definition add_block ::
    "RuleRange \<Rightarrow> cell list list \<times> nat jsobj \<Rightarrow> string \<Rightarrow> block \<Rightarrow> cell list list \<times> nat jsobj" where
  "add_block s acc category rangeRaw =
     (let combinedRuleRange = fst acc;
          rng = filter (\<lambda>r. r \<noteq> []) (List.map_filter (\<lambda>r. r) rangeRaw);
          ruleSettingColumnCount = (case rng of [] \<Rightarrow> 0 | r # _ \<Rightarrow> length r)
      in if ruleSettingColumnCount = 0 then acc
         else
           let ruleSettingColumnOffset = length (combinedRuleRange ! 0);
               header = combinedRuleRange ! 0
                 @ replicate ruleSettingColumnCount (Some (if category = ''none'' then '''' else category));
               helpers = (if category = ''none'' then [Some '''', Some '''']
                          else combinedRuleRange ! 1
                            @ map (helper_cell (client s) header ruleSettingColumnOffset)
                                [0..<ruleSettingColumnCount]);
               sortedEntries = sort_key snd (obj_entries (rowIndex s))
           in foldl (add_entry rangeRaw ruleSettingColumnCount)
                (combinedRuleRange[0 := header, 1 := helpers], snd acc)
                (zip sortedEntries [0..<length sortedEntries]))"

definition getValues_step ::
    "RuleRange \<Rightarrow> string option \<Rightarrow> js_error + cell list list \<times> nat jsobj \<Rightarrow> string \<times> block
       \<Rightarrow> js_error + cell list list \<times> nat jsobj" where
  "getValues_step s ruleGranularity acc entry =
     (case acc of
        Inl e \<Rightarrow> Inl e
      | Inr a \<Rightarrow>
          (case skipped (client s) ruleGranularity (fst entry) of
             Inl e \<Rightarrow> Inl e
           | Inr True \<Rightarrow> Inr a
           | Inr False \<Rightarrow> Inr (add_block s a (fst entry) (snd entry))))"

text \<open>The loop \<open>for (c = values[0].length - 1; c > 0; c--)\<close>, started at \<open>c\<close>.\<close>

fun dedupe_from :: "nat \<Rightarrow> cell list \<Rightarrow> cell list" where
  "dedupe_from 0 h = h"
| "dedupe_from (Suc c) h =
     dedupe_from c (h[Suc c := (if h ! c = h ! Suc c then Some '''' else h ! Suc c)])"

definition dedupe_header :: "cell list \<Rightarrow> cell list" where
  "dedupe_header h = dedupe_from (length h - 1) h"

definition combined_rules :: "RuleRange \<Rightarrow> string option \<Rightarrow> js_error + cell list list \<times> nat jsobj" where
  "combined_rules s ruleGranularity =
     foldl (getValues_step s ruleGranularity) (Inr ([[], []], obj_entries (rowIndex s)))
       (obj_entries (rules s))"

definition getValues :: "RuleRange \<Rightarrow> string option \<Rightarrow> js_error + cell list list \<times> RuleRange" where
  "getValues s ruleGranularity =
     (case combined_rules s ruleGranularity of
        Inl e \<Rightarrow> Inl e
      | Inr (vals, newRowIndex) \<Rightarrow>
          Inr (vals[0 := dedupe_header (vals ! 0)], s\<lparr>rowIndex := newRowIndex\<rparr>))"

section \<open>Versions and migrations\<close>

text \<open>\<open>ver.split('.')\<close>: the empty string gives one empty segment.\<close>

fun split_dot :: "string \<Rightarrow> string list" where
  "split_dot [] = [[]]"
| "split_dot (c # cs) =
     (if c = CHR ''.'' then [] # split_dot cs
      else (case split_dot cs of [] \<Rightarrow> [[c]] | x # xs \<Rightarrow> (c # x) # xs))"

text \<open>
  \<open>Number\<close> on a version segment. A segment of decimal digits reads as its value and the
  empty segment as \<open>0\<close>; \<open>None\<close> stands for \<open>NaN\<close>, the reading of a segment that is
  not numeric. The other numeric notations of JavaScript (sign, exponent, hexadecimal,
  surrounding blanks) are not version segments and are not modelled. The source computes
  in double precision; the arithmetic here is exact. The two give the same number where
  every quotient and every partial sum is a double, as on equal versions, where every
  term is \<open>0\<close>; elsewhere they can differ by the rounding of the doubles, which can
  change the sign of a sum that is close to \<open>0\<close>.
\<close>

definition Number :: "string \<Rightarrow> rat option" where
  "Number seg = (if list_all is_digit seg then Some (of_nat (dec_val seg)) else None)"

text \<open>\<open>keys[i] ?? 0\<close>\<close>

definition key_or_zero :: "rat option list \<Rightarrow> nat \<Rightarrow> rat option" where
  "key_or_zero ks i = (if i < length ks then ks ! i else Some 0)"

definition sortMigrations :: "string \<Rightarrow> string \<Rightarrow> rat option" where
  "sortMigrations ver1 ver2 =
     (let keys1 = map Number (split_dot ver1);
          keys2 = map Number (split_dot ver2)
      in foldl (\<lambda>difference i.
                  case (difference, key_or_zero keys1 i, key_or_zero keys2 i) of
                    (Some d, Some a, Some b) \<Rightarrow> Some (d + (a - b) / 10 ^ i)
                  | _ \<Rightarrow> None)
           (Some 0) [0..<max (length keys1) (length keys2)])"

text \<open>Comparisons of a result with \<open>0\<close>; they are false on \<open>NaN\<close>.\<close>

definition positive :: "rat option \<Rightarrow> bool" where
  "positive r = (case r of Some d \<Rightarrow> 0 < d | None \<Rightarrow> False)"

definition negative :: "rat option \<Rightarrow> bool" where
  "negative r = (case r of Some d \<Rightarrow> d < 0 | None \<Rightarrow> False)"

definition non_negative :: "rat option \<Rightarrow> bool" where
  "non_negative r = (case r of Some d \<Rightarrow> 0 \<le> d | None \<Rightarrow> False)"

text \<open>
  \<open>Array.prototype.sort\<close> with a comparator, as a stable insertion sort: an element stays
  before the elements it does not compare greater than. Every stable sort gives this
  result when the comparator is a consistent order.
\<close>

fun insert_by :: "('a \<Rightarrow> 'a \<Rightarrow> bool) \<Rightarrow> 'a \<Rightarrow> 'a list \<Rightarrow> 'a list" where
  "insert_by gt x [] = [x]"
| "insert_by gt x (y # ys) = (if gt x y then y # insert_by gt x ys else x # y # ys)"

definition sort_by :: "('a \<Rightarrow> 'a \<Rightarrow> bool) \<Rightarrow> 'a list \<Rightarrow> 'a list" where
  "sort_by gt xs = foldr (insert_by gt) xs []"

text \<open>
  The front end, as far as \<open>migrate\<close> goes: the script property \<open>sheet_version\<close>
  (\<open>None\<close> when it is not set) and the state \<open>frontend\<close> that the migrations work on.
  A migration returns the state it leaves and the exception it throws, if any.
\<close>

type_synonym 'f migration = "'f \<Rightarrow> 'f \<times> js_error option"

record 'f FrontEndArgs =
  version :: string
  migrations :: "'f migration jsobj"

record 'f FrontEnd =
  sheet_version :: "string option"
  frontend :: 'f

fun run_migrations ::
    "string \<Rightarrow> string \<Rightarrow> (string \<times> 'f migration) list \<Rightarrow> 'f FrontEnd \<Rightarrow> nat
       \<Rightarrow> (js_error + nat) \<times> 'f FrontEnd" where
  "run_migrations target sheetVersion [] st numberOfMigrations = (Inr numberOfMigrations, st)"
| "run_migrations target sheetVersion ((ver, migration) # rest) st numberOfMigrations =
     (if non_negative (sortMigrations ver target) then (Inr numberOfMigrations, st)
      else if positive (sortMigrations ver sheetVersion)
      then (case migration (frontend st) of
              (f, Some e) \<Rightarrow> (Inl e, st\<lparr>frontend := f\<rparr>)
            | (f, None) \<Rightarrow>
                run_migrations target sheetVersion rest
                  (st\<lparr>frontend := f, sheet_version := Some ver\<rparr>) (numberOfMigrations + 1))
      else run_migrations target sheetVersion rest st numberOfMigrations)"

definition migrate :: "'f FrontEndArgs \<Rightarrow> 'f FrontEnd \<Rightarrow> (js_error + nat) \<times> 'f FrontEnd" where
  "migrate injectedArgs st =
     (let sheetVersion = (case sheet_version st of None \<Rightarrow> ''0'' | Some v \<Rightarrow> v);
          st1 = (if sheetVersion = '''' then st\<lparr>sheet_version := Some (version injectedArgs)\<rparr> else st);
          sorted = sort_by (\<lambda>t1 t2. positive (sortMigrations (fst t1) (fst t2)))
                     (obj_entries (migrations injectedArgs))
      in case run_migrations (version injectedArgs) sheetVersion sorted st1 0 of
           (Inl e, st2) \<Rightarrow> (Inl e, st2)
         | (Inr n, st2) \<Rightarrow>
             (Inr n,
              if sheetVersion \<noteq> version injectedArgs
              then st2\<lparr>sheet_version := Some (version injectedArgs)\<rparr> else st2))"

text \<open>
  The spec's version order, for comparison: the segments are compared as numbers from the
  left, a missing segment counting as \<open>0\<close>; the result is \<open>-1\<close>, \<open>0\<close> or \<open>1\<close>.
\<close>

definition segments :: "string \<Rightarrow> nat list" where
  "segments ver = map dec_val (split_dot ver)"

fun version_order :: "nat list \<Rightarrow> nat list \<Rightarrow> int" where
  "version_order [] [] = 0"
| "version_order (a # as) [] = (if 0 < a then 1 else version_order as [])"
| "version_order [] (b # bs) = (if 0 < b then - 1 else version_order [] bs)"
| "version_order (a # as) (b # bs) =
     (if a < b then - 1 else if b < a then 1 else version_order as bs)"

definition numeric_version :: "string \<Rightarrow> bool" where
  "numeric_version ver = list_all (\<lambda>seg. seg \<noteq> [] \<and> list_all is_digit seg) (split_dot ver)"

section \<open>The row index as a set of ids and positions\<close>













section \<open>Example data\<close>

text \<open>
  The scenario of the rule sheet tests: rule \<open>A\<close> with the parameters \<open>p1\<close> (label
  \<open>label1\<close>) and \<open>p2\<close> (label \<open>label2\<close>, default \<open>d2\<close>), and one campaign.
\<close>

definition example_client :: Client where
  "example_client = \<lparr>ruleStore = [(''A'', \<lparr>rule_granularity = ''default'', helper = ''help''\<rparr>)]\<rparr>"


definition example_params :: "ParamDefinition jsobj" where
  "example_params = [(''p1'', \<lparr>label = ''label1''\<rparr>), (''p2'', \<lparr>label = ''label2''\<rparr>)]"


definition example_range :: RuleRange where
  "example_range =
     \<lparr>rowIndex = [(''ID'', 0), (''default'', 1), (''1'', 3)],
      columnOrders = [],
      rules = [(''none'', [Some [Some ''ID''], Some [Some ''default''], None, Some [Some ''1'']]),
               (''A'', [Some [Some ''label1'', Some ''label2''], Some [Some '''', Some ''d2''], None,
                        Some [Some ''v1'', Some '''']])],
      len = 3,
      client = example_client\<rparr>"

definition example_settings :: SettingMap where
  "example_settings =
     \<lparr>smap = [(Some ''default'', [(''p1'', Some ''''), (''p2'', Some ''d2'')]),
              (Some ''1'', [(''p1'', Some ''v1''), (''p2'', Some '''')])],
      keys = [''p1'', ''p2'']\<rparr>"





section \<open>An example migration table\<close>

text \<open>
  A migration that appends its version to a trace, a front end whose sheet is at version
  \<open>1.0\<close>, and the arguments of a release \<open>1.2\<close> that brings one migration, keyed
  with its own version.
\<close>

definition logging :: "string \<Rightarrow> string list migration" where
  "logging ver trace = (trace @ [ver], None)"

definition target_args :: "string list FrontEndArgs" where
  "target_args = \<lparr>version = ''1.2'', migrations = [(''1.2'', logging ''1.2'')]\<rparr>"

definition example_frontend :: "string list FrontEnd" where
  "example_frontend = \<lparr>sheet_version = Some ''1.0'', frontend = []\<rparr>"

section \<open>Evaluation lemmas\<close>

lemmas js_defs =
  obj_entries_def obj_keys_def obj_values_def array_index_def is_digit_def dec_val_def
  digit_val_def index_rank_def fromEntries_def read_prop_def cell_at_def key_of_def nullish_def
  truthy_def arr_get_def arr_set_def assign_def prototype_member_def



lemma example_range_values:
  "getValues example_range None =
     Inr ([[Some '''', Some ''A'', Some ''''],
           [Some '''', Some '''', Some ''help'', Some ''''],
           [Some ''ID'', Some ''label1'', Some ''label2''],
           [Some ''default'', Some '''', Some ''d2''],
           [Some ''1'', Some ''v1'', Some '''']],
          example_range\<lparr>rowIndex := [(''1'', 4), (''ID'', 2), (''default'', 3)]\<rparr>)"
  by (simp add: example_range_def example_client_def js_defs getValues_def combined_rules_def
      getValues_step_def skipped_def add_block_def add_entry_def add_cells_def helper_cell_def
      dedupe_header_def List.map_filter_def Let_def)

section \<open>SettingMap: defaulting and construction\<close>

lemma map_of_foldl_update:
  "map_of (foldl (\<lambda>prev key. AList.update key (f key) prev) acc ks) k =
     (if k \<in> set ks then Some (f k) else map_of acc k)"
  by (induction ks arbitrary: acc) (auto simp: update_conv')

lemma dom_foldl_update:
  "fst ` set (foldl (\<lambda>prev key. AList.update key (f key) prev) acc ks) = fst ` set acc \<union> set ks"
  by (induction ks arbitrary: acc) (auto simp: dom_update)

lemma set_obj_entries: "set (obj_entries obj) = set obj"
  by (auto simp: obj_entries_def)

lemma obj_values_read_prop:
  assumes "distinct (map fst r)"
  shows "obj_values r = map (read_prop r) (obj_keys r)"
proof -
  have "snd kv = read_prop r (fst kv)" if "kv \<in> set (obj_entries r)" for kv
  proof -
    from that have "(fst kv, snd kv) \<in> set r" by (simp add: set_obj_entries)
    with assms have "map_of r (fst kv) = Some (snd kv)" by (simp only: map_of_eq_Some_iff)
    then show ?thesis by (simp add: read_prop_def)
  qed
  then show ?thesis by (simp add: obj_values_def obj_keys_def)
qed

lemma map_of_foldl_assign:
  "map_of (foldl (\<lambda>prev key. assign key (f key) prev) acc ks) k =
     (if k \<in> set ks \<and> k \<noteq> ''__proto__'' then Some (f k) else map_of acc k)"
  by (induction ks arbitrary: acc) (auto simp: assign_def update_conv')

lemma dom_foldl_assign:
  "fst ` set (foldl (\<lambda>prev key. assign key (f key) prev) acc ks)
     = fst ` set acc \<union> (set ks - {''__proto__''})"
  by (induction ks arbitrary: acc) (auto simp: assign_def dom_update)

text \<open>
  C2 (as amended). For every key fixed at construction that names no member of
  \<open>Object.prototype\<close>, \<open>getOrDefault\<close> gives the value of the \<open>default\<close> row when
  the record of the id lacks the key or holds the empty string for it, and the id's own
  value otherwise; the value so chosen is given as the empty string when it is missing
  (\<open>undefined\<close>). So a key that the record of the id holds with the value
  \<open>undefined\<close> gives the empty string whatever the \<open>default\<close> row holds. The stored
  state is returned unchanged.
\<close>

theorem getOrDefault_defaulting:
  assumes "key \<in> set (keys m)" and "\<not> prototype_member key"
  shows "(map_of (stored m ident) key = None \<or> map_of (stored m ident) key = Some (Some '''') \<longrightarrow>
            map_of (fst (getOrDefault m ident)) key =
              Some (Some (case read_prop (stored m ''default'') key of None \<Rightarrow> '''' | Some v \<Rightarrow> v)))
       \<and> (\<forall>v. map_of (stored m ident) key = Some (Some v) \<and> v \<noteq> '''' \<longrightarrow>
            map_of (fst (getOrDefault m ident)) key = Some (Some v))
       \<and> (map_of (stored m ident) key = Some None \<longrightarrow>
            map_of (fst (getOrDefault m ident)) key = Some (Some ''''))
       \<and> snd (getOrDefault m ident) = m"
proof -
  from assms(2) have "key \<noteq> ''__proto__''" by (auto simp: prototype_member_def)
  with assms(1) show ?thesis
    by (auto simp: getOrDefault_def Let_def map_of_foldl_assign read_prop_def nullish_def
        split: option.splits)
qed

theorem getOrDefault_defaulting_witness:
  "''p2'' \<in> set (keys example_settings) \<and> \<not> prototype_member ''p2''
   \<and> map_of (stored example_settings ''1'') ''p2'' = Some (Some '''')
   \<and> map_of (fst (getOrDefault example_settings ''1'')) ''p2'' = Some (Some ''d2'')
   \<and> \<not> prototype_member ''p1''
   \<and> map_of (stored example_settings ''1'') ''p1'' = Some (Some ''v1'')
   \<and> map_of (fst (getOrDefault example_settings ''1'')) ''p1'' = Some (Some ''v1'')
   \<and> map_of (stored example_settings ''2'') ''p1'' = None
   \<and> map_of (fst (getOrDefault example_settings ''2'')) ''p1'' = Some (Some '''')
   \<and> snd (getOrDefault example_settings ''1'') = example_settings"
proof -
  have k: "''p2'' \<in> set (keys example_settings)" "''p1'' \<in> set (keys example_settings)"
    by (simp_all add: example_settings_def)
  have p: "\<not> prototype_member ''p2''" "\<not> prototype_member ''p1''"
    by (simp_all add: prototype_member_def)
  from getOrDefault_defaulting [OF k(1) p(1), of "''1''"]
    getOrDefault_defaulting [OF k(2) p(2), of "''1''"]
    getOrDefault_defaulting [OF k(2) p(2), of "''2''"] k p
  show ?thesis by (simp add: example_settings_def stored_def read_prop_def)
qed

text \<open>
  The grid \<open>ID, label1 / default, d1 / 1\<close> has a row for the id \<open>1\<close> without a cell
  under \<open>label1\<close>: its record holds \<open>p1\<close> with the value \<open>undefined\<close>, and
  \<open>getOrDefault\<close> gives the empty string for it, neither the value \<open>d1\<close> of the
  \<open>default\<close> row nor the stored value.
\<close>

theorem getOrDefault_undefined_counterexample:
  "transformToParamValues
       [[Some ''ID'', Some ''label1''], [Some ''default'', Some ''d1''], [Some ''1'']]
       [(''p1'', \<lparr>label = ''label1''\<rparr>)]
     = Inr \<lparr>smap = [(Some ''default'', [(''p1'', Some ''d1'')]), (Some ''1'', [(''p1'', None)])],
            keys = [''p1'']\<rparr>
   \<and> map_of (stored \<lparr>smap = [(Some ''default'', [(''p1'', Some ''d1'')]), (Some ''1'', [(''p1'', None)])],
                      keys = [''p1'']\<rparr> ''1'') ''p1'' = Some None
   \<and> read_prop (stored \<lparr>smap = [(Some ''default'', [(''p1'', Some ''d1'')]), (Some ''1'', [(''p1'', None)])],
                         keys = [''p1'']\<rparr> ''default'') ''p1'' = Some ''d1''
   \<and> map_of (fst (getOrDefault
                      \<lparr>smap = [(Some ''default'', [(''p1'', Some ''d1'')]), (Some ''1'', [(''p1'', None)])],
                       keys = [''p1'']\<rparr> ''1'')) ''p1'' = Some (Some '''')"
  by (simp add: transformToParamValues_def new_SettingMap_def forEachRow_def new_Map_def
      getOrDefault_def stored_def js_defs)

lemma dom_fromEntries_foldl:
  "fst ` set (foldl (\<lambda>obj kv. AList.update (fst kv) (snd kv) obj) acc es) = fst ` set acc \<union> fst ` set es"
  by (induction es arbitrary: acc) (auto simp: dom_update)

lemma dom_fromEntries: "fst ` set (fromEntries es) = fst ` set es"
  by (simp add: fromEntries_def dom_fromEntries_foldl)

lemma getOrDefault_keys: "fst ` set (fst (getOrDefault m ident)) = set (keys m) - {''__proto__''}"
  by (simp add: getOrDefault_def Let_def dom_foldl_assign)

lemma get_absent_keys:
  "map_of (smap m) (Some ident) = None \<Longrightarrow> fst ` set (fst (get m ident)) = set (keys m)"
  by (simp add: get_def Let_def dom_fromEntries image_image)

lemma entries_homogeneous:
  assumes "\<forall>(i, r) \<in> set (smap m). distinct (map fst r) \<and> obj_keys r = keys m"
  shows "entries m = entries_by_keys m"
  unfolding entries_def entries_by_keys_def
proof (rule map_cong [OF refl])
  fix x assume x: "x \<in> set (smap m)"
  obtain i r where ir: "x = (i, r)" by (cases x)
  with x assms have "distinct (map fst r)" "obj_keys r = keys m" by auto
  then show "(case x of (ident, r) \<Rightarrow> (ident, obj_values r))
           = (case x of (ident, r) \<Rightarrow> (ident, map (read_prop r) (keys m)))"
    using obj_values_read_prop [of r] ir by simp
qed

text \<open>
  C10 (as amended). Constructing a \<open>SettingMap\<close> from the empty sequence raises a
  \<open>TypeError\<close>; from a non-empty sequence it succeeds, and the keys are those of the
  first record, in the order of its enumeration. \<open>get\<close>, where it makes the record of
  an absent id, gives a record over exactly these keys, and so does \<open>getOrDefault\<close>,
  but for the key \<open>__proto__\<close>, which its assignment does not make. \<open>entries\<close>
  lists each stored record's own values: it agrees with the listing by the fixed keys
  when every stored record enumerates exactly these keys, in the same order.
\<close>

theorem new_SettingMap_keys:
  "new_SettingMap [] = Inl TypeError
   \<and> (vs \<noteq> [] \<longrightarrow>
        (\<exists>m. new_SettingMap vs = Inr m
           \<and> keys m = obj_keys (snd (hd vs))
           \<and> (\<forall>ident. fst ` set (fst (getOrDefault m ident)) = set (keys m) - {''__proto__''})
           \<and> (\<forall>ident. map_of (smap m) (Some ident) = None \<longrightarrow>
                  fst ` set (fst (get m ident)) = set (keys m))
           \<and> ((\<forall>(i, r) \<in> set (smap m). distinct (map fst r) \<and> obj_keys r = keys m) \<longrightarrow>
                  entries m = entries_by_keys m)))"
proof (intro conjI impI)
  show "new_SettingMap [] = Inl TypeError" by (simp add: new_SettingMap_def)
next
  assume "vs \<noteq> []"
  then obtain v rest where vs: "vs = v # rest" by (cases vs) auto
  let ?m = "\<lparr>smap = new_Map vs, keys = obj_keys (snd v)\<rparr>"
  have "new_SettingMap vs = Inr ?m" by (simp add: new_SettingMap_def vs)
  moreover have "keys ?m = obj_keys (snd (hd vs))" by (simp add: vs)
  ultimately show "\<exists>m. new_SettingMap vs = Inr m
           \<and> keys m = obj_keys (snd (hd vs))
           \<and> (\<forall>ident. fst ` set (fst (getOrDefault m ident)) = set (keys m) - {''__proto__''})
           \<and> (\<forall>ident. map_of (smap m) (Some ident) = None \<longrightarrow>
                  fst ` set (fst (get m ident)) = set (keys m))
           \<and> ((\<forall>(i, r) \<in> set (smap m). distinct (map fst r) \<and> obj_keys r = keys m) \<longrightarrow>
                  entries m = entries_by_keys m)"
    using getOrDefault_keys [of ?m] get_absent_keys [of ?m] entries_homogeneous [of ?m]
    by blast
qed

theorem new_SettingMap_keys_witness:
  "[(Some ''default'', [(''p1'', Some ''''), (''p2'', Some ''d2'')]),
    (Some ''1'', [(''p1'', Some ''v1''), (''p2'', Some '''')])] \<noteq> []
   \<and> new_SettingMap [(Some ''default'', [(''p1'', Some ''''), (''p2'', Some ''d2'')]),
                      (Some ''1'', [(''p1'', Some ''v1''), (''p2'', Some '''')])] = Inr example_settings
   \<and> keys example_settings = [''p1'', ''p2'']
   \<and> map_of (smap example_settings) (Some ''2'') = None
   \<and> fst ` set (fst (get example_settings ''2'')) = {''p1'', ''p2''}
   \<and> fst ` set (fst (getOrDefault example_settings ''2'')) = {''p1'', ''p2''}
   \<and> entries example_settings = entries_by_keys example_settings"
proof -
  let ?vs = "[(Some ''default'', [(''p1'', Some ''''), (''p2'', Some ''d2'')]),
              (Some ''1'', [(''p1'', Some ''v1''), (''p2'', Some '''')])]"
  have m: "new_SettingMap ?vs = Inr example_settings"
    by (simp add: new_SettingMap_def new_Map_def example_settings_def js_defs)
  have h: "\<forall>(i, r) \<in> set (smap example_settings). distinct (map fst r) \<and> obj_keys r = keys example_settings"
    by (simp add: example_settings_def js_defs)
  have a: "map_of (smap example_settings) (Some ''2'') = None"
    by (simp add: example_settings_def)
  have k: "keys example_settings = [''p1'', ''p2'']" by (simp add: example_settings_def)
  have p: "{''p1'', ''p2''} - {''__proto__''} = {''p1'', ''p2''}" by auto
  from new_SettingMap_keys [of ?vs] m h a k p show ?thesis by auto
qed

theorem entries_keys_counterexample:
  "new_SettingMap [(Some ''a'', [(''x'', Some ''1'')]), (Some ''b'', [(''y'', Some ''2'')])]
     = Inr \<lparr>smap = [(Some ''a'', [(''x'', Some ''1'')]), (Some ''b'', [(''y'', Some ''2'')])], keys = [''x'']\<rparr>
   \<and> entries \<lparr>smap = [(Some ''a'', [(''x'', Some ''1'')]), (Some ''b'', [(''y'', Some ''2'')])], keys = [''x'']\<rparr>
     = [(Some ''a'', [Some ''1'']), (Some ''b'', [Some ''2''])]
   \<and> entries_by_keys \<lparr>smap = [(Some ''a'', [(''x'', Some ''1'')]), (Some ''b'', [(''y'', Some ''2'')])], keys = [''x'']\<rparr>
     = [(Some ''a'', [Some ''1'']), (Some ''b'', [None])]
   \<and> map_of [(''y'', Some ''2'')] ''x'' = (None :: cell option)"
  by (simp add: new_SettingMap_def new_Map_def entries_def entries_by_keys_def js_defs)

section \<open>transformToParamValues: the shape check\<close>

text \<open>
  C9 (as amended). \<open>transformToParamValues\<close> raises its error exactly when the grid has
  fewer than two rows, whatever the width of the rows; on every grid of at least two rows
  it returns the settings table built from the rows below the header.
\<close>

theorem transformToParamValues_shape:
  "(isl (transformToParamValues rawSettings mapper) \<longleftrightarrow> length rawSettings < 2)
   \<and> (length rawSettings < 2 \<longrightarrow>
        transformToParamValues rawSettings mapper
          = Inl (Thrown ''Expected a grid with row and column headers of at least size 2''))
   \<and> (2 \<le> length rawSettings \<longrightarrow>
        transformToParamValues rawSettings mapper
          = Inr \<lparr>smap = new_Map (map (forEachRow (hd rawSettings) mapper) (tl rawSettings)),
                 keys = obj_keys (snd (forEachRow (hd rawSettings) mapper (hd (tl rawSettings))))\<rparr>)"
proof -
  have "transformToParamValues rawSettings mapper
          = Inr \<lparr>smap = new_Map (map (forEachRow (hd rawSettings) mapper) (tl rawSettings)),
                 keys = obj_keys (snd (forEachRow (hd rawSettings) mapper (hd (tl rawSettings))))\<rparr>"
    if "2 \<le> length rawSettings"
  proof -
    from that obtain h r rest where "rawSettings = h # r # rest"
      by (cases rawSettings; cases "tl rawSettings") auto
    then show ?thesis by (simp add: transformToParamValues_def new_SettingMap_def)
  qed
  moreover have "transformToParamValues rawSettings mapper
          = Inl (Thrown ''Expected a grid with row and column headers of at least size 2'')"
    if "length rawSettings < 2"
    using that by (simp add: transformToParamValues_def)
  ultimately show ?thesis by (cases "length rawSettings < 2") auto
qed

theorem transformToParamValues_shape_witness:
  "length [[Some ''ID'', Some ''label1'', Some ''label2'']] < 2
   \<and> transformToParamValues [[Some ''ID'', Some ''label1'', Some ''label2'']] example_params
       = Inl (Thrown ''Expected a grid with row and column headers of at least size 2'')
   \<and> 2 \<le> length [[Some ''ID'', Some ''label1'', Some ''label2''],
                   [Some ''default'', Some '''', Some ''d2''],
                   [Some ''1'', Some ''v1'', Some '''']]
   \<and> transformToParamValues [[Some ''ID'', Some ''label1'', Some ''label2''],
                              [Some ''default'', Some '''', Some ''d2''],
                              [Some ''1'', Some ''v1'', Some '''']] example_params
       = Inr example_settings"
  using transformToParamValues_shape [of "[[Some ''ID'', Some ''label1'', Some ''label2'']]" example_params]
    transformToParamValues_shape [of "[[Some ''ID'', Some ''label1'', Some ''label2''],
                   [Some ''default'', Some '''', Some ''d2''],
                   [Some ''1'', Some ''v1'', Some '''']]" example_params]
  by (simp add: example_settings_def example_params_def forEachRow_def new_Map_def js_defs)

theorem transformToParamValues_narrow_grid_counterexample:
  "length [[Some ''ID''], [Some ''default'']] = 2
   \<and> length (hd [[Some ''ID''], [Some ''default'']]) < 2
   \<and> transformToParamValues [[Some ''ID''], [Some ''default'']] example_params
       = Inr \<lparr>smap = [(Some ''default'', [(''p1'', None), (''p2'', None)])], keys = [''p1'', ''p2'']\<rparr>"
  by (simp add: transformToParamValues_def new_SettingMap_def example_params_def forEachRow_def
      new_Map_def js_defs)

section \<open>getValues: the header row\<close>

lemma length_dedupe_from: "length (dedupe_from c h) = length h"
  by (induction c arbitrary: h) auto

lemma nth_dedupe_from:
  "c < length h \<Longrightarrow> i < length h \<Longrightarrow>
     dedupe_from c h ! i = (if 0 < i \<and> i \<le> c \<and> h ! (i - 1) = h ! i then Some '''' else h ! i)"
proof (induction c arbitrary: h)
  case 0
  then show ?case by auto
next
  case (Suc c)
  let ?h = "h[Suc c := (if h ! c = h ! Suc c then Some '''' else h ! Suc c)]"
  have "dedupe_from c ?h ! i = (if 0 < i \<and> i \<le> c \<and> ?h ! (i - 1) = ?h ! i then Some '''' else ?h ! i)"
    using Suc.prems by (intro Suc.IH) auto
  then show ?case
    using Suc.prems by (cases "i = Suc c") (auto simp: nth_list_update)
qed

lemma nth_dedupe_header:
  "i < length h \<Longrightarrow>
     dedupe_header h ! i = (if 0 < i \<and> h ! (i - 1) = h ! i then Some '''' else h ! i)"
  unfolding dedupe_header_def by (subst nth_dedupe_from) auto

lemma length_dedupe_header: "length (dedupe_header h) = length h"
  by (simp add: dedupe_header_def length_dedupe_from)

lemma length_add_cells: "length combined \<le> length (add_cells combined i cells)"
  by (simp add: add_cells_def)

lemma length_add_entry: "length (fst acc) \<le> length (fst (add_entry rangeRaw n acc e))"
  by (simp add: add_entry_def Let_def add_cells_def)

lemma length_add_entries:
  "length (fst acc) \<le> length (fst (foldl (add_entry rangeRaw n) acc es))"
proof (induction es arbitrary: acc)
  case Nil
  then show ?case by simp
next
  case (Cons e es)
  have "length (fst acc) \<le> length (fst (add_entry rangeRaw n acc e))"
    by (rule length_add_entry)
  also have "\<dots> \<le> length (fst (foldl (add_entry rangeRaw n) (add_entry rangeRaw n acc e) es))"
    by (rule Cons.IH)
  finally show ?case by simp
qed

lemma length_add_block: "length (fst acc) \<le> length (fst (add_block s acc category rangeRaw))"
proof -
  have "length (fst acc) \<le> length (fst (foldl (add_entry rangeRaw n) ((fst acc)[0 := h, 1 := h'], snd acc) es))"
    for n h h' es
    using length_add_entries [of "((fst acc)[0 := h, 1 := h'], snd acc)" rangeRaw n es] by simp
  then show ?thesis
    unfolding add_block_def Let_def by (simp del: One_nat_def)
qed

lemma getValues_step_length:
  "getValues_step s g (Inr a) entry = Inr b \<Longrightarrow> length (fst a) \<le> length (fst b)"
  by (auto simp: getValues_step_def length_add_block split: sum.splits bool.splits)

lemma getValues_step_Inl [simp]: "getValues_step s g (Inl e) entry = Inl e"
  by (simp add: getValues_step_def)

lemma foldl_getValues_step_Inl [simp]: "foldl (getValues_step s g) (Inl e) es = Inl e"
  by (induction es) auto

lemma foldl_getValues_step_length:
  "foldl (getValues_step s g) (Inr a) es = Inr b \<Longrightarrow> length (fst a) \<le> length (fst b)"
proof (induction es arbitrary: a)
  case Nil
  then show ?case by simp
next
  case (Cons e es)
  show ?case
  proof (cases "getValues_step s g (Inr a) e")
    case (Inl x)
    with Cons.prems show ?thesis by simp
  next
    case (Inr a')
    with Cons.prems have "length (fst a') \<le> length (fst b)" by (intro Cons.IH) simp
    with getValues_step_length [OF Inr] show ?thesis by simp
  qed
qed

lemma combined_rules_rows:
  "combined_rules s g = Inr (vals, ri) \<Longrightarrow> 2 \<le> length vals"
  unfolding combined_rules_def by (drule foldl_getValues_step_length) simp

text \<open>
  C6. In the grid that \<open>getValues\<close> returns, row 0 is the header that the blocks were
  combined into, with exactly those cells blanked that equal their left neighbour in
  that header: the scan runs from the right, so each cell is compared with its
  neighbour's original value. The other rows are returned as combined. The header
  \<open>A, A, B, B, B\<close> becomes \<open>A, '', B, '', ''\<close>.
\<close>

theorem getValues_header_dedupe:
  "(getValues s g = Inr (vals, s') \<longrightarrow>
      (\<exists>raw rest. combined_rules s g = Inr (raw # rest, rowIndex s')
           \<and> vals = dedupe_header raw # rest
           \<and> length (dedupe_header raw) = length raw
           \<and> (\<forall>c < length raw.
                 dedupe_header raw ! c =
                   (if 0 < c \<and> raw ! (c - 1) = raw ! c then Some '''' else raw ! c))))
   \<and> dedupe_header [Some ''A'', Some ''A'', Some ''B'', Some ''B'', Some ''B'']
         = [Some ''A'', Some '''', Some ''B'', Some '''', Some '''']"
proof (intro conjI impI)
  assume assms: "getValues s g = Inr (vals, s')"
  then obtain v ri where c: "combined_rules s g = Inr (v, ri)"
    and vals: "vals = v[0 := dedupe_header (v ! 0)]" and s': "s' = s\<lparr>rowIndex := ri\<rparr>"
    by (auto simp: getValues_def split: sum.splits prod.splits)
  from combined_rules_rows [OF c] obtain raw rest where v: "v = raw # rest"
    by (cases v) auto
  show "\<exists>raw rest. combined_rules s g = Inr (raw # rest, rowIndex s')
           \<and> vals = dedupe_header raw # rest
           \<and> length (dedupe_header raw) = length raw
           \<and> (\<forall>c < length raw.
                 dedupe_header raw ! c =
                   (if 0 < c \<and> raw ! (c - 1) = raw ! c then Some '''' else raw ! c))"
    using c vals s' v by (simp add: nth_dedupe_header length_dedupe_header)
next
  show "dedupe_header [Some ''A'', Some ''A'', Some ''B'', Some ''B'', Some ''B'']
           = [Some ''A'', Some '''', Some ''B'', Some '''', Some '''']"
    by (simp add: dedupe_header_def numeral_nat)
qed

theorem getValues_header_dedupe_witness:
  "getValues example_range None =
     Inr ([[Some '''', Some ''A'', Some ''''],
           [Some '''', Some '''', Some ''help'', Some ''''],
           [Some ''ID'', Some ''label1'', Some ''label2''],
           [Some ''default'', Some '''', Some ''d2''],
           [Some ''1'', Some ''v1'', Some '''']],
          example_range\<lparr>rowIndex := [(''1'', 4), (''ID'', 2), (''default'', 3)]\<rparr>)
   \<and> (\<exists>raw rest. combined_rules example_range None
           = Inr (raw # rest, rowIndex (example_range\<lparr>rowIndex := [(''1'', 4), (''ID'', 2), (''default'', 3)]\<rparr>))
         \<and> [[Some '''', Some ''A'', Some ''''],
             [Some '''', Some '''', Some ''help'', Some ''''],
             [Some ''ID'', Some ''label1'', Some ''label2''],
             [Some ''default'', Some '''', Some ''d2''],
             [Some ''1'', Some ''v1'', Some '''']] = dedupe_header raw # rest
         \<and> length (dedupe_header raw) = length raw
         \<and> (\<forall>c < length raw.
               dedupe_header raw ! c =
                 (if 0 < c \<and> raw ! (c - 1) = raw ! c then Some '''' else raw ! c)))"
  using getValues_header_dedupe [THEN conjunct1, rule_format, OF example_range_values]
    example_range_values
  by (intro conjI)

section \<open>sortMigrations on concrete versions\<close>

lemmas version_defs =
  sortMigrations_def Number_def key_or_zero_def segments_def numeric_version_def is_digit_def
  dec_val_def digit_val_def positive_def negative_def non_negative_def

text \<open>
  C8. The sign of \<open>sortMigrations\<close> is meant to follow the version order. It does so on
  \<open>1.2.0\<close> and \<open>1.10.0\<close>, where the result is negative. It does not on \<open>1.0.0\<close> and
  \<open>0.11.0\<close>: both are numeric versions, the first follows the second in the version
  order, and the result is \<open>1 + (0 - 11) / 10 + 0 = - 1 / 10\<close>, negative.
\<close>

theorem sortMigrations_misorders:
  "numeric_version ''1.0.0'' \<and> numeric_version ''0.11.0''
   \<and> version_order (segments ''1.0.0'') (segments ''0.11.0'') = 1
   \<and> sortMigrations ''1.0.0'' ''0.11.0'' = Some (- 1 / 10)
   \<and> negative (sortMigrations ''1.0.0'' ''0.11.0'')
   \<and> version_order (segments ''1.2.0'') (segments ''1.10.0'') = - 1
   \<and> sortMigrations ''1.2.0'' ''1.10.0'' = Some (- 4 / 5)
   \<and> negative (sortMigrations ''1.2.0'' ''1.10.0'')"
  by (simp add: version_defs)

section \<open>The row index under setRow, setRules and fillRuleValues\<close>



























section \<open>getRule\<close>










section \<open>Positions in the row index\<close>





























section \<open>The ids after fillRuleValues\<close>




section \<open>Stability of the positions\<close>









section \<open>The migration run\<close>

text \<open>
  C7. \<open>migrate\<close> is to invoke every migration whose version is above the persisted
  version and not above the target version. It does not invoke a migration keyed with
  the target version itself: the sheet is at \<open>1.0\<close>, the release \<open>1.2\<close> brings the
  migration \<open>1.2\<close>, and \<open>sortMigrations\<close> of the two equal versions is \<open>0\<close>, on which
  the loop ends. \<open>migrate\<close> returns \<open>0\<close>, the trace of the migrations stays empty and
  \<open>1.2\<close> is persisted, after which a second call does not invoke the migration either.
\<close>

theorem migrate_skips_target_version:
  "version_order (segments ''1.0'') (segments ''1.2'') = - 1
   \<and> version_order (segments ''1.2'') (segments (version target_args)) = 0
   \<and> migrations target_args = [(''1.2'', logging ''1.2'')]
   \<and> sortMigrations ''1.2'' (version target_args) = Some 0
   \<and> migrate target_args example_frontend = (Inr 0, \<lparr>sheet_version = Some ''1.2'', frontend = []\<rparr>)
   \<and> migrate target_args \<lparr>sheet_version = Some ''1.2'', frontend = []\<rparr>
       = (Inr 0, \<lparr>sheet_version = Some ''1.2'', frontend = []\<rparr>)"
  by (simp add: migrate_def target_args_def example_frontend_def sort_by_def obj_entries_def
      array_index_def version_defs Let_def)

end
